theory Spec2Isabelle
  imports Complex_Main
begin

section \<open>Dynamic values and the detection record\<close>

text \<open>
  The payloads of both transports are the results of \<^verbatim>\<open>JSON.parse\<close> /
  \<^verbatim>\<open>response.json()\<close> and have the TypeScript type \<^verbatim>\<open>any\<close>. They are modelled as
  JavaScript values; numbers are reals (JSON has no NaN and no infinities).
  An object is its list of properties, looked up with \<open>map_of\<close>.
\<close>

datatype js =
    JUndefined
  | JNull
  | JBool bool
  | JNum real
  | JStr string
  | JArr "js list"
  | JObj "(string \<times> js) list"

datatype jserror = TypeError | SyntaxError | FetchError | HttpError | ImportError

text \<open>JavaScript truthiness: \<^verbatim>\<open>undefined\<close>, \<^verbatim>\<open>null\<close>, \<^verbatim>\<open>false\<close>, \<^verbatim>\<open>0\<close> and \<^verbatim>\<open>""\<close> are falsy.\<close>

fun truthy :: "js \<Rightarrow> bool" where
  "truthy JUndefined = False"
| "truthy JNull = False"
| "truthy (JBool b) = b"
| "truthy (JNum x) = (x \<noteq> 0)"
| "truthy (JStr s) = (s \<noteq> [])"
| "truthy (JArr xs) = True"
| "truthy (JObj kvs) = True"

text \<open>The operator \<^verbatim>\<open>a || b\<close>: the left operand when it is truthy, the right one otherwise.\<close>

definition js_or :: "js \<Rightarrow> js \<Rightarrow> js" where
  "js_or a b = (if truthy a then a else b)"

text \<open>
  Property access \<^verbatim>\<open>data.k\<close> for the six keys the program reads (\<^verbatim>\<open>timestamp\<close>,
  \<^verbatim>\<open>bison_count\<close>, \<^verbatim>\<open>count\<close>, \<^verbatim>\<open>movement\<close>, \<^verbatim>\<open>fps\<close>, \<^verbatim>\<open>source\<close>): it throws a
  TypeError on \<^verbatim>\<open>null\<close> and \<^verbatim>\<open>undefined\<close>, and is \<^verbatim>\<open>undefined\<close> on a primitive, an array or
  an object without the key.
\<close>

fun getProp :: "js \<Rightarrow> string \<Rightarrow> jserror + js" where
  "getProp JUndefined k = Inl TypeError"
| "getProp JNull k = Inl TypeError"
| "getProp (JObj kvs) k = Inr (case map_of kvs k of None \<Rightarrow> JUndefined | Some v \<Rightarrow> v)"
| "getProp (JBool b) k = Inr JUndefined"
| "getProp (JNum x) k = Inr JUndefined"
| "getProp (JStr s) k = Inr JUndefined"
| "getProp (JArr xs) k = Inr JUndefined"

text \<open>
  \<^verbatim>\<open>interface BisonDetection\<close>. The interface declares a string, two numbers and two
  enumerations, but TypeScript checks nothing at run time: the fields of an event hold
  whatever the payload held. So every field is a JavaScript value (\<open>AnyDetection\<close>),
  in the transformation, in the buffer and in the KPI effect alike.
\<close>

record ('t, 'n, 'm, 's) Detection =
  timestamp :: 't
  count :: 'n
  movement :: 'm
  fps :: 'n
  source :: 's

type_synonym AnyDetection = "(js, js, js, js) Detection"

section \<open>The transformation of a payload (stream.ts lines 55-61, api.ts lines 15-21)\<close>

text \<open>
  The object literal that both \<^verbatim>\<open>eventSource.onmessage\<close> and \<^verbatim>\<open>getLatest\<close> build from
  \<^verbatim>\<open>data\<close>; \<open>now\<close> is \<^verbatim>\<open>new Date().toISOString()\<close>. The first property access throws
  when \<^verbatim>\<open>data\<close> is \<^verbatim>\<open>null\<close>.
\<close>

definition transform :: "string \<Rightarrow> js \<Rightarrow> jserror + AnyDetection" where
  "transform now data =
     (case getProp data ''timestamp'' of Inl e \<Rightarrow> Inl e | Inr ts \<Rightarrow>
      case getProp data ''bison_count'' of Inl e \<Rightarrow> Inl e | Inr bc \<Rightarrow>
      case getProp data ''count'' of Inl e \<Rightarrow> Inl e | Inr c \<Rightarrow>
      case getProp data ''movement'' of Inl e \<Rightarrow> Inl e | Inr mv \<Rightarrow>
      case getProp data ''fps'' of Inl e \<Rightarrow> Inl e | Inr f \<Rightarrow>
      case getProp data ''source'' of Inl e \<Rightarrow> Inl e | Inr src \<Rightarrow>
        Inr \<lparr> timestamp = js_or ts (JStr now),
              count = js_or (js_or bc c) (JNum 0),
              movement = js_or mv (JStr ''stationary''),
              fps = js_or f (JNum 0),
              source = js_or src (JStr ''rtsp'') \<rparr>)"

text \<open>
  What the interface and the data model ask of an event: a string timestamp, a
  non-negative integer count, one of the five movements, a non-negative frame rate and
  one of the two source tags.
\<close>

definition is_movement :: "js \<Rightarrow> bool" where
  "is_movement v = (v \<in> set (map JStr [''north'', ''south'', ''east'', ''west'', ''stationary'']))"

definition is_source :: "js \<Rightarrow> bool" where
  "is_source v = (v \<in> set (map JStr [''rtsp'', ''sample'']))"

fun is_string :: "js \<Rightarrow> bool" where
  "is_string (JStr s) = True"
| "is_string v = False"

fun is_count :: "js \<Rightarrow> bool" where
  "is_count (JNum x) = (0 \<le> x \<and> x = of_int \<lfloor>x\<rfloor>)"
| "is_count v = False"

fun is_rate :: "js \<Rightarrow> bool" where
  "is_rate (JNum x) = (0 \<le> x)"
| "is_rate v = False"

definition structurally_valid :: "AnyDetection \<Rightarrow> bool" where
  "structurally_valid d =
     (is_string (timestamp d) \<and> is_count (count d) \<and> is_movement (movement d)
      \<and> is_rate (fps d) \<and> is_source (source d))"

text \<open>A field of the payload is acceptable when it is falsy (and so defaulted) or valid.\<close>

definition field_ok :: "(js \<Rightarrow> bool) \<Rightarrow> jserror + js \<Rightarrow> bool" where
  "field_ok P r = (case r of Inl e \<Rightarrow> False | Inr v \<Rightarrow> \<not> truthy v \<or> P v)"

definition well_typed_payload :: "js \<Rightarrow> bool" where
  "well_typed_payload data =
     (field_ok is_string (getProp data ''timestamp'') \<and> field_ok is_count (getProp data ''bison_count'')
      \<and> field_ok is_count (getProp data ''count'') \<and> field_ok is_movement (getProp data ''movement'')
      \<and> field_ok is_rate (getProp data ''fps'') \<and> field_ok is_source (getProp data ''source''))"

section \<open>The mock generator and getLatest (api.ts)\<close>

text \<open>
  \<^verbatim>\<open>generateMockData\<close> draws four times from \<^verbatim>\<open>Math.random()\<close>; the draws are inputs
  of the model, in the order of the calls. \<^verbatim>\<open>Number(x.toFixed(1))\<close> rounds to one
  decimal, ties upwards. \<^verbatim>\<open>xs[i]\<close> out of range is \<^verbatim>\<open>undefined\<close>.
\<close>

record Random =
  rnd_count :: real
  rnd_movement :: real
  rnd_fps :: real
  rnd_source :: real

definition toFixed1 :: "real \<Rightarrow> real" where
  "toFixed1 x = of_int (round (x * 10)) / 10"

definition index_js :: "string list \<Rightarrow> int \<Rightarrow> js" where
  "index_js xs i = (if 0 \<le> i \<and> i < int (length xs) then JStr (xs ! nat i) else JUndefined)"

definition movements :: "string list" where
  "movements = [''north'', ''south'', ''east'', ''west'', ''stationary'']"

definition sources :: "string list" where
  "sources = [''rtsp'', ''sample'']"

definition generateMockData :: "string \<Rightarrow> Random \<Rightarrow> AnyDetection" where
  "generateMockData now r =
     \<lparr> timestamp = JStr now,
       count = JNum (of_int (\<lfloor>rnd_count r * 12\<rfloor> + 1)),
       movement = index_js movements \<lfloor>rnd_movement r * of_nat (length movements)\<rfloor>,
       fps = JNum (toFixed1 (20 + rnd_fps r * 10)),
       source = index_js sources \<lfloor>rnd_source r * of_nat (length sources)\<rfloor> \<rparr>"

text \<open>
  The outcome of \<^verbatim>\<open>fetch\<close>: the request fails, or a response arrives with its \<^verbatim>\<open>ok\<close>
  flag and the result of \<^verbatim>\<open>response.json()\<close> (\<open>None\<close> when the body is not JSON).
\<close>

datatype FetchResult = NetworkFailure | Response bool "js option"

text \<open>The \<^verbatim>\<open>try\<close> block of \<^verbatim>\<open>getLatest\<close>, then the function with its \<^verbatim>\<open>catch\<close>.\<close>

definition getLatest_try :: "string \<Rightarrow> FetchResult \<Rightarrow> jserror + AnyDetection" where
  "getLatest_try now res =
     (case res of
        NetworkFailure \<Rightarrow> Inl FetchError
      | Response ok body \<Rightarrow>
          if \<not> ok then Inl HttpError
          else (case body of None \<Rightarrow> Inl SyntaxError | Some data \<Rightarrow> transform now data))"

definition getLatest :: "string \<Rightarrow> Random \<Rightarrow> FetchResult \<Rightarrow> jserror + AnyDetection" where
  "getLatest now r res =
     (case getLatest_try now res of
        Inr d \<Rightarrow> Inr d
      | Inl e \<Rightarrow> Inr (generateMockData now r))"

section \<open>The aggregator (useBisonStream)\<close>

definition MAX_DATA_POINTS :: nat where
  "MAX_DATA_POINTS = 1800"

definition KPI_WINDOW_MINUTES :: int where
  "KPI_WINDOW_MINUTES = 15"

text \<open>\<^verbatim>\<open>xs.slice(-n)\<close>: the last \<open>n\<close> elements, all of them when there are fewer (and for \<open>n = 0\<close>).\<close>

definition slice_neg :: "nat \<Rightarrow> 'a list \<Rightarrow> 'a list" where
  "slice_neg n xs = (if n = 0 then xs else drop (length xs - n) xs)"

text \<open>The updater that \<^verbatim>\<open>handleNewDetection\<close> passes to \<^verbatim>\<open>setDetections\<close>.\<close>

definition handleNewDetection :: "'a list \<Rightarrow> 'a \<Rightarrow> 'a list" where
  "handleNewDetection prev detection =
     (let updated = prev @ [detection] in slice_neg MAX_DATA_POINTS updated)"

subsection \<open>JavaScript arithmetic on the values the buffer holds\<close>

text \<open>
  The KPI effect adds the counts, divides the sum and turns the timestamps into dates,
  whatever values these are. A number is a real or NaN (no infinities, no rounding). The
  operators convert their operands as ECMAScript prescribes; four conversions are the
  platform's own algorithms and are parameters of the model: \<^verbatim>\<open>Date.parse\<close> (\<open>None\<close>
  for an invalid date), the decimal rendering of a number, the reading of a string as a
  number, and the conversion of an array or object to a string, which throws a TypeError
  when the object carries a \<^verbatim>\<open>toString\<close> of its own that is no function.
\<close>

datatype number = Finite real | NaN

datatype primitive = PUndefined | PNull | PBoolean bool | PNumber number | PString string

record Platform =
  dateParse :: "string \<Rightarrow> int option"
  numberToString :: "real \<Rightarrow> string"
  stringToNumber :: "string \<Rightarrow> number"
  objectToString :: "js \<Rightarrow> jserror + string"

fun toPrimitive :: "Platform \<Rightarrow> js \<Rightarrow> jserror + primitive" where
  "toPrimitive P JUndefined = Inr PUndefined"
| "toPrimitive P JNull = Inr PNull"
| "toPrimitive P (JBool b) = Inr (PBoolean b)"
| "toPrimitive P (JNum x) = Inr (PNumber (Finite x))"
| "toPrimitive P (JStr s) = Inr (PString s)"
| "toPrimitive P (JArr xs) =
     (case objectToString P (JArr xs) of Inl e \<Rightarrow> Inl e | Inr s \<Rightarrow> Inr (PString s))"
| "toPrimitive P (JObj kvs) =
     (case objectToString P (JObj kvs) of Inl e \<Rightarrow> Inl e | Inr s \<Rightarrow> Inr (PString s))"

fun toNumber :: "Platform \<Rightarrow> primitive \<Rightarrow> number" where
  "toNumber P PUndefined = NaN"
| "toNumber P PNull = Finite 0"
| "toNumber P (PBoolean b) = Finite (if b then 1 else 0)"
| "toNumber P (PNumber n) = n"
| "toNumber P (PString s) = stringToNumber P s"

fun toString :: "Platform \<Rightarrow> primitive \<Rightarrow> string" where
  "toString P PUndefined = ''undefined''"
| "toString P PNull = ''null''"
| "toString P (PBoolean b) = (if b then ''true'' else ''false'')"
| "toString P (PNumber NaN) = ''NaN''"
| "toString P (PNumber (Finite x)) = numberToString P x"
| "toString P (PString s) = s"

fun isString :: "primitive \<Rightarrow> bool" where
  "isString (PString s) = True"
| "isString p = False"

fun number_add :: "number \<Rightarrow> number \<Rightarrow> number" where
  "number_add (Finite a) (Finite b) = Finite (a + b)"
| "number_add a b = NaN"

text \<open>
  \<^verbatim>\<open>sum + v\<close>, the left operand (\<open>acc\<close>) being a primitive already: both operands are made
  primitive; if either is a string the result is the concatenation of their strings,
  otherwise the sum of their numbers.
\<close>

definition js_plus :: "Platform \<Rightarrow> primitive \<Rightarrow> js \<Rightarrow> jserror + primitive" where
  "js_plus P acc v =
     (case toPrimitive P v of
        Inl e \<Rightarrow> Inl e
      | Inr rprim \<Rightarrow>
          if isString acc \<or> isString rprim
          then Inr (PString (toString P acc @ toString P rprim))
          else Inr (PNumber (number_add (toNumber P acc) (toNumber P rprim))))"

text \<open>\<^verbatim>\<open>sum / n\<close> for the length \<open>n\<close> of a list that is not empty.\<close>

definition js_divide :: "Platform \<Rightarrow> primitive \<Rightarrow> nat \<Rightarrow> number" where
  "js_divide P acc n =
     (case toNumber P acc of NaN \<Rightarrow> NaN | Finite a \<Rightarrow> Finite (a / of_nat n))"

text \<open>
  \<^verbatim>\<open>new Date(v)\<close>, as its time value in milliseconds (\<open>None\<close> for an invalid date):
  a string is parsed, any other primitive is read as a number, cut to an integer and to
  the range of dates. \<^verbatim>\<open>date >= windowStart\<close> is false for an invalid date.
\<close>

definition timeClip :: "number \<Rightarrow> int option" where
  "timeClip n =
     (case n of
        NaN \<Rightarrow> None
      | Finite x \<Rightarrow>
          if \<bar>x\<bar> > 8640000000000000 then None
          else Some (if 0 \<le> x then \<lfloor>x\<rfloor> else \<lceil>x\<rceil>))"

definition newDate :: "Platform \<Rightarrow> js \<Rightarrow> jserror + int option" where
  "newDate P v =
     (case toPrimitive P v of
        Inl e \<Rightarrow> Inl e
      | Inr p \<Rightarrow> Inr (case p of PString s \<Rightarrow> dateParse P s | _ \<Rightarrow> timeClip (toNumber P p)))"

definition dateGe :: "int option \<Rightarrow> int \<Rightarrow> bool" where
  "dateGe date windowStart = (case date of None \<Rightarrow> False | Some t \<Rightarrow> windowStart \<le> t)"

subsection \<open>The KPI effect\<close>

record KPIData =
  currentCount :: js
  averageCount :: number
  kpiFps :: js
  kpiLastUpdate :: js

text \<open>
  \<open>now\<close> is \<^verbatim>\<open>new Date().getTime()\<close>, the reading of the wall clock. The filter and the
  reduction go through the list from the left and stop at the first conversion that
  throws; then the effect throws and sets nothing (\<open>Inl\<close>). On an empty buffer it
  returns early and sets nothing (\<open>Inr None\<close>).
\<close>

fun filterRecent :: "Platform \<Rightarrow> int \<Rightarrow> AnyDetection list \<Rightarrow> jserror + AnyDetection list" where
  "filterRecent P windowStart [] = Inr []"
| "filterRecent P windowStart (d # ds) =
     (case newDate P (timestamp d) of
        Inl e \<Rightarrow> Inl e
      | Inr date \<Rightarrow>
          (case filterRecent P windowStart ds of
             Inl e \<Rightarrow> Inl e
           | Inr rest \<Rightarrow> Inr (if dateGe date windowStart then d # rest else rest)))"

definition recentDetections ::
  "Platform \<Rightarrow> int \<Rightarrow> AnyDetection list \<Rightarrow> jserror + AnyDetection list" where
  "recentDetections P now detections =
     (let windowStart = now - KPI_WINDOW_MINUTES * 60 * 1000
      in filterRecent P windowStart detections)"

fun reduceSum :: "Platform \<Rightarrow> primitive \<Rightarrow> AnyDetection list \<Rightarrow> jserror + primitive" where
  "reduceSum P acc [] = Inr acc"
| "reduceSum P acc (d # ds) =
     (case js_plus P acc (count d) of
        Inl e \<Rightarrow> Inl e
      | Inr acc' \<Rightarrow> reduceSum P acc' ds)"

definition calculateKpis ::
  "Platform \<Rightarrow> int \<Rightarrow> AnyDetection list \<Rightarrow> jserror + KPIData option" where
  "calculateKpis P now detections =
     (if length detections = 0 then Inr None
      else
        let latest = last detections
        in case recentDetections P now detections of
             Inl e \<Rightarrow> Inl e
           | Inr recent \<Rightarrow>
               (case (if length recent > 0
                      then (case reduceSum P (PNumber (Finite 0)) recent of
                              Inl e \<Rightarrow> Inl e
                            | Inr acc \<Rightarrow> Inr (js_divide P acc (length recent)))
                      else Inr (Finite 0)) of
                  Inl e \<Rightarrow> Inl e
                | Inr average \<Rightarrow>
                    Inr (Some \<lparr> currentCount = count latest, averageCount = average,
                                 kpiFps = fps latest, kpiLastUpdate = timestamp latest \<rparr>)))"

section \<open>Reference notions used in the statements\<close>






fun is_object :: "js \<Rightarrow> bool" where
  "is_object (JObj kvs) = True"
| "is_object v = False"

text \<open>The value a field takes: the payload's when it is there and truthy, the default otherwise.\<close>

definition pick :: "(string \<times> js) list \<Rightarrow> string \<Rightarrow> js \<Rightarrow> js" where
  "pick kvs k dflt = (case map_of kvs k of None \<Rightarrow> dflt | Some v \<Rightarrow> if truthy v then v else dflt)"

definition defaults :: "string \<Rightarrow> AnyDetection" where
  "defaults now = \<lparr> timestamp = JStr now, count = JNum 0, movement = JStr ''stationary'',
                     fps = JNum 0, source = JStr ''rtsp'' \<rparr>"

text \<open>
  Concrete inputs. The wall clock reads 2025-09-23T19:13:27Z, that is 1758654807000 ms.
  The platform is given on the strings and numbers that the examples use: four dates,
  the numbers 0, 5 and 9 and their numerals, and the string \<open>0seven\<close>, which reads as
  no number; the examples convert no array and no object. One event is stamped an hour
  ahead of the clock (a detector whose clock runs fast), one two minutes and one twenty
  minutes before it; one is what the transformation makes of the message
  \<^verbatim>\<open>{"count": "seven"}\<close> received at that instant.
\<close>

definition example_platform :: Platform where
  "example_platform =
     \<lparr> dateParse = map_of
         [(''2025-09-23T19:13:27.000Z'', 1758654807000), (''2025-09-23T20:13:27.000Z'', 1758658407000),
          (''2025-09-23T19:11:27.000Z'', 1758654687000), (''2025-09-23T18:53:27.000Z'', 1758653607000)],
       numberToString = (\<lambda>x. if x = 0 then ''0'' else if x = 5 then ''5'' else if x = 9 then ''9''
                               else []),
       stringToNumber = (\<lambda>s. if s = ''0'' then Finite 0 else if s = ''5'' then Finite 5
                               else if s = ''9'' then Finite 9
                               else if s = ''0seven'' then NaN else NaN),
       objectToString = (\<lambda>v. Inr ''[object Object]'') \<rparr>"

definition skewed_event :: AnyDetection where
  "skewed_event = \<lparr> timestamp = JStr ''2025-09-23T20:13:27.000Z'', count = JNum 5,
                     movement = JStr ''north'', fps = JNum 24, source = JStr ''rtsp'' \<rparr>"

definition fresh_event :: AnyDetection where
  "fresh_event = \<lparr> timestamp = JStr ''2025-09-23T19:11:27.000Z'', count = JNum 9,
                    movement = JStr ''south'', fps = JNum 25, source = JStr ''rtsp'' \<rparr>"



definition example_payload :: js where
  "example_payload = JObj [(''timestamp'', JStr ''2025-09-23T19:13:27.000Z''), (''count'', JNum 3),
                           (''movement'', JStr ''north''), (''fps'', JNum 24.5),
                           (''source'', JStr ''rtsp'')]"

section \<open>The connection manager (BisonStreamManager) and its environment\<close>

text \<open>
  The manager is event-driven: between two calls of its public methods, the browser
  runs its handlers when an EventSource opens, fails or delivers a message, when a timer
  fires and when a poll settles. The model is a state record and one step per such event.

  Each call of \<^verbatim>\<open>startSSE\<close> creates one EventSource, one 10 s timer and one promise;
  they are kept together in a \<open>Connection\<close>, numbered in the order of creation. The
  handlers of an EventSource close over the timer and the promise of their own call.
\<close>

datatype ReadyState = CONNECTING | OPEN | CLOSED

datatype Status = connected | disconnected | error

datatype ConnectionType = sse | polling | offline

datatype Callback = OnMessage AnyDetection | OnStatusChange Status

record Connection =
  readyState :: ReadyState
  timeoutMs :: nat
  timeoutPending :: bool
  settled :: bool
  awaitedByStart :: bool

record Timer =
  delayMs :: nat
  pending :: bool

record Interval =
  periodMs :: nat
  active :: bool

record StreamStatus =
  isLive :: bool
  lastUpdate :: "string option"
  connectionType :: ConnectionType

text \<open>
  The first four fields are the manager's own; then the browser's objects (connections,
  the timers set by \<^verbatim>\<open>onerror\<close>, the intervals, the number of \<^verbatim>\<open>pollData\<close> calls that
  have not settled); then the state of the hook that owns the manager; then what an
  observer sees: the calls of the two callbacks, in order, and the console.
\<close>

record Client =
  eventSource :: "nat option"
  pollingInterval :: "nat option"
  isUsingSSE :: bool
  reconnectAttempts :: nat
  connections :: "Connection list"
  reconnectTimers :: "Timer list"
  intervals :: "Interval list"
  polls :: nat
  detections :: "AnyDetection list"
  status :: StreamStatus
  calls :: "Callback list"
  console :: "string list"

definition maxReconnectAttempts :: nat where
  "maxReconnectAttempts = 3"

definition initial :: Client where
  "initial = \<lparr> eventSource = None, pollingInterval = None, isUsingSSE = False,
                reconnectAttempts = 0, connections = [], reconnectTimers = [], intervals = [],
                polls = 0, detections = [],
                status = \<lparr> isLive = False, lastUpdate = None, connectionType = offline \<rparr>,
                calls = [], console = [] \<rparr>"

definition getConnectionType :: "Client \<Rightarrow> ConnectionType" where
  "getConnectionType c =
     (if eventSource c = None \<and> pollingInterval c = None then offline
      else if isUsingSSE c then sse else polling)"

text \<open>
  The two callbacks the hook constructs the manager with: \<^verbatim>\<open>handleNewDetection\<close> (with
  \<open>now\<close> the \<^verbatim>\<open>new Date()\<close> it stores) and \<^verbatim>\<open>handleStatusChange\<close>. The state updaters
  are applied at the call.
\<close>

definition onMessage :: "string \<Rightarrow> AnyDetection \<Rightarrow> Client \<Rightarrow> Client" where
  "onMessage now d c =
     c\<lparr> detections := handleNewDetection (detections c) d,
        status := (status c)\<lparr> isLive := True, lastUpdate := Some now \<rparr>,
        calls := calls c @ [OnMessage d] \<rparr>"

definition onStatusChange :: "Status \<Rightarrow> Client \<Rightarrow> Client" where
  "onStatusChange s c =
     c\<lparr> status := (status c)\<lparr> isLive := (s = connected),
                               connectionType := (if s = connected then getConnectionType c
                                                  else offline) \<rparr>,
        calls := calls c @ [OnStatusChange s] \<rparr>"

definition updateConnection :: "nat \<Rightarrow> (Connection \<Rightarrow> Connection) \<Rightarrow> Client \<Rightarrow> Client" where
  "updateConnection k f c = c\<lparr> connections := (connections c)[k := f (connections c ! k)] \<rparr>"

text \<open>\<^verbatim>\<open>es.close()\<close>, \<^verbatim>\<open>clearTimeout(timeout)\<close> and the settling of the promise of call \<open>k\<close>.\<close>

definition close :: "nat \<Rightarrow> Client \<Rightarrow> Client" where
  "close k c = updateConnection k (\<lambda>x. x\<lparr> readyState := CLOSED \<rparr>) c"

definition clearTimeout :: "nat \<Rightarrow> Client \<Rightarrow> Client" where
  "clearTimeout k c = updateConnection k (\<lambda>x. x\<lparr> timeoutPending := False \<rparr>) c"

definition settle :: "nat \<Rightarrow> Client \<Rightarrow> Client" where
  "settle k c = updateConnection k (\<lambda>x. x\<lparr> settled := True \<rparr>) c"

definition log :: "string \<Rightarrow> Client \<Rightarrow> Client" where
  "log msg c = c\<lparr> console := console c @ [msg] \<rparr>"

text \<open>\<^verbatim>\<open>startPolling\<close>: the flag, the status, one poll at once, then the interval.\<close>

definition pollData :: "Client \<Rightarrow> Client" where
  "pollData c = c\<lparr> polls := polls c + 1 \<rparr>"

definition startPolling :: "Client \<Rightarrow> Client" where
  "startPolling c =
     (let c1 = onStatusChange connected (c\<lparr> isUsingSSE := False \<rparr>);
          c2 = pollData c1
      in c2\<lparr> pollingInterval := Some (length (intervals c2)),
             intervals := intervals c2 @ [\<lparr> periodMs = 2000, active = True \<rparr>] \<rparr>)"

text \<open>
  \<^verbatim>\<open>startSSE\<close>: the executor of the promise runs at once; it creates the EventSource and
  the 10 s timer. \<open>byStart\<close> tells which caller awaits the promise.
\<close>

definition startSSE :: "bool \<Rightarrow> Client \<Rightarrow> Client" where
  "startSSE byStart c =
     c\<lparr> eventSource := Some (length (connections c)),
        connections := connections c @
          [\<lparr> readyState = CONNECTING, timeoutMs = 10000, timeoutPending = True,
             settled = False, awaitedByStart = byStart \<rparr>] \<rparr>"

text \<open>
  \<^verbatim>\<open>resolve()\<close> and \<^verbatim>\<open>reject(...)\<close> of call \<open>k\<close>. A settled promise ignores both. Nothing
  waits on fulfilment; on rejection the \<^verbatim>\<open>catch\<close> of \<^verbatim>\<open>start\<close> warns and starts polling,
  the \<^verbatim>\<open>catch\<close> of the retry starts polling.
\<close>

definition resolve :: "nat \<Rightarrow> Client \<Rightarrow> Client" where
  "resolve k c = (if settled (connections c ! k) then c else settle k c)"

definition reject :: "nat \<Rightarrow> Client \<Rightarrow> Client" where
  "reject k c =
     (if settled (connections c ! k) then c
      else
        let c1 = settle k c;
            c2 = (if awaitedByStart (connections c ! k)
                  then log ''SSE failed, falling back to polling:'' c1 else c1)
        in startPolling c2)"

definition start :: "Client \<Rightarrow> Client" where
  "start c = startSSE True c"

definition stop :: "Client \<Rightarrow> Client" where
  "stop c =
     (let c1 = (case eventSource c of
                  Some k \<Rightarrow> (close k c)\<lparr> eventSource := None \<rparr>
                | None \<Rightarrow> c);
          c2 = (case pollingInterval c1 of
                  Some i \<Rightarrow> c1\<lparr> intervals := (intervals c1)[i := (intervals c1 ! i)\<lparr> active := False \<rparr>],
                               pollingInterval := None \<rparr>
                | None \<Rightarrow> c1)
      in onStatusChange disconnected c2)"

text \<open>The handlers of the EventSource of call \<open>k\<close>.\<close>

definition onopen :: "nat \<Rightarrow> Client \<Rightarrow> Client" where
  "onopen k c =
     (let c1 = clearTimeout k c;
          c2 = c1\<lparr> isUsingSSE := True, reconnectAttempts := 0 \<rparr>;
          c3 = onStatusChange connected c2
      in resolve k c3)"

text \<open>\<open>payload\<close> is the result of \<^verbatim>\<open>JSON.parse(event.data)\<close>, \<open>None\<close> when it throws.\<close>

definition onmessage :: "js option \<Rightarrow> string \<Rightarrow> Client \<Rightarrow> Client" where
  "onmessage payload now c =
     (case payload of
        None \<Rightarrow> log ''Failed to parse SSE message:'' c
      | Some data \<Rightarrow>
          (case transform now data of
             Inl e \<Rightarrow> log ''Failed to parse SSE message:'' c
           | Inr detection \<Rightarrow> onMessage now detection c))"

definition onerror :: "nat \<Rightarrow> Client \<Rightarrow> Client" where
  "onerror k c =
     (let c1 = clearTimeout k c;
          c2 = onStatusChange error c1
      in if reconnectAttempts c2 < maxReconnectAttempts
         then
           let c3 = c2\<lparr> reconnectAttempts := reconnectAttempts c2 + 1 \<rparr>
           in c3\<lparr> reconnectTimers := reconnectTimers c3 @
                    [\<lparr> delayMs = 2000 * reconnectAttempts c3, pending = True \<rparr>] \<rparr>
         else reject k c2)"

text \<open>The callback of the 10 s timer of call \<open>k\<close>, and the callback of a retry timer.\<close>

definition onTimeout :: "nat \<Rightarrow> Client \<Rightarrow> Client" where
  "onTimeout k c =
     (let c1 = (case eventSource c of Some j \<Rightarrow> close j c | None \<Rightarrow> c)
      in reject k c1)"

definition onRetry :: "Client \<Rightarrow> Client" where
  "onRetry c =
     (if (case eventSource c of
            Some k \<Rightarrow> readyState (connections c ! k) = CLOSED
          | None \<Rightarrow> False)
      then startSSE False c else c)"

text \<open>
  The rest of \<^verbatim>\<open>pollData\<close>, run when its awaits settle: the dynamic import fails, or
  \<^verbatim>\<open>getLatest\<close> returns (warning when it falls back to mock data).
\<close>

datatype PollOutcome = ImportFailed | Fetched FetchResult

definition pollSettled :: "PollOutcome \<Rightarrow> Random \<Rightarrow> string \<Rightarrow> Client \<Rightarrow> Client" where
  "pollSettled outcome r now c =
     (case outcome of
        ImportFailed \<Rightarrow> onStatusChange error (log ''Polling failed:'' c)
      | Fetched res \<Rightarrow>
          let c1 = (case getLatest_try now res of
                      Inl e \<Rightarrow> log ''API call failed, using mock data:'' c
                    | Inr d \<Rightarrow> c)
          in (case getLatest now r res of
                Inr data \<Rightarrow> onMessage now data c1
              | Inl e \<Rightarrow> onStatusChange error (log ''Polling failed:'' c1)))"

subsection \<open>Events\<close>

text \<open>
  The two public calls, and what the browser may do. An EventSource fires \<^verbatim>\<open>open\<close>
  while connecting, \<^verbatim>\<open>message\<close> while open, and \<^verbatim>\<open>error\<close> unless closed; after an error
  it is either closed for good (\<open>fatal\<close>) or reconnecting by itself. A timer fires once
  if it was not cleared, an interval while it is not cleared, and a poll settles if one
  is outstanding. An event that the browser cannot produce leaves the state as it is.
\<close>

datatype Event =
    CallStart
  | CallStop
  | EsOpen nat
  | EsError nat bool
  | EsMessage nat "js option" string
  | ConnectTimeout nat
  | RetryTimeout nat
  | IntervalTick nat
  | PollSettled PollOutcome Random string

fun enabled :: "Event \<Rightarrow> Client \<Rightarrow> bool" where
  "enabled CallStart c = True"
| "enabled CallStop c = True"
| "enabled (EsOpen k) c = (k < length (connections c) \<and> readyState (connections c ! k) = CONNECTING)"
| "enabled (EsError k fatal) c = (k < length (connections c) \<and> readyState (connections c ! k) \<noteq> CLOSED)"
| "enabled (EsMessage k payload now) c = (k < length (connections c) \<and> readyState (connections c ! k) = OPEN)"
| "enabled (ConnectTimeout k) c = (k < length (connections c) \<and> timeoutPending (connections c ! k))"
| "enabled (RetryTimeout j) c = (j < length (reconnectTimers c) \<and> pending (reconnectTimers c ! j))"
| "enabled (IntervalTick i) c = (i < length (intervals c) \<and> active (intervals c ! i))"
| "enabled (PollSettled outcome r now) c = (0 < polls c)"

fun fire :: "Event \<Rightarrow> Client \<Rightarrow> Client" where
  "fire CallStart c = start c"
| "fire CallStop c = stop c"
| "fire (EsOpen k) c = onopen k (updateConnection k (\<lambda>x. x\<lparr> readyState := OPEN \<rparr>) c)"
| "fire (EsError k fatal) c =
     onerror k (updateConnection k (\<lambda>x. x\<lparr> readyState := (if fatal then CLOSED else CONNECTING) \<rparr>) c)"
| "fire (EsMessage k payload now) c = onmessage payload now c"
| "fire (ConnectTimeout k) c = onTimeout k (clearTimeout k c)"
| "fire (RetryTimeout j) c =
     onRetry (c\<lparr> reconnectTimers := (reconnectTimers c)[j := (reconnectTimers c ! j)\<lparr> pending := False \<rparr>] \<rparr>)"
| "fire (IntervalTick i) c = pollData c"
| "fire (PollSettled outcome r now) c = pollSettled outcome r now (c\<lparr> polls := polls c - 1 \<rparr>)"

definition step :: "Event \<Rightarrow> Client \<Rightarrow> Client" where
  "step e c = (if enabled e c then fire e c else c)"

fun run :: "Event list \<Rightarrow> Client \<Rightarrow> Client" where
  "run [] c = c"
| "run (e # es) c = run es (step e c)"

text \<open>A run that the browser can produce: every event is enabled when it happens.\<close>

fun feasible :: "Event list \<Rightarrow> Client \<Rightarrow> bool" where
  "feasible [] c = True"
| "feasible (e # es) c = (enabled e c \<and> feasible es (step e c))"

text \<open>The channels that are acquiring data: EventSources not closed, intervals not cleared.\<close>

definition activeChannels :: "Client \<Rightarrow> nat" where
  "activeChannels c =
     length (filter (\<lambda>x. readyState x \<noteq> CLOSED) (connections c))
     + length (filter active (intervals c))"

subsection \<open>Invariants and concrete inputs\<close>

text \<open>The references of the manager point at existing browser objects.\<close>

definition wellFormed :: "Client \<Rightarrow> bool" where
  "wellFormed c =
     ((case eventSource c of None \<Rightarrow> True | Some k \<Rightarrow> k < length (connections c))
      \<and> (case pollingInterval c of None \<Rightarrow> True | Some i \<Rightarrow> i < length (intervals c)))"

text \<open>The manager holds an interval that has not been cleared.\<close>

definition pollingArmed :: "Client \<Rightarrow> bool" where
  "pollingArmed c =
     (case pollingInterval c of
        None \<Rightarrow> False
      | Some i \<Rightarrow> i < length (intervals c) \<and> active (intervals c ! i))"

definition example_random :: Random where
  "example_random = \<lparr> rnd_count = 1 / 2, rnd_movement = 1 / 4, rnd_fps = 1 / 2, rnd_source = 0 \<rparr>"

text \<open>
  States of a session: the first connection is being attempted; it has opened; it has
  failed; the stream has failed four times over (each EventSource closed for good, each
  retry timer fired) but for the last error; the first attempt has timed out and the
  client polls.
\<close>

definition connecting_client :: Client where
  "connecting_client = run [CallStart] initial"

definition streaming_client :: Client where
  "streaming_client = run [CallStart, EsOpen 0] initial"

definition retrying_client :: Client where
  "retrying_client = run [CallStart, EsError 0 True] initial"

definition exhausted_client :: Client where
  "exhausted_client =
     run [CallStart, EsError 0 True, RetryTimeout 0, EsError 1 True, RetryTimeout 1,
          EsError 2 True, RetryTimeout 2] initial"

definition polling_client :: Client where
  "polling_client = run [CallStart, ConnectTimeout 0] initial"

section \<open>The history buffer\<close>

lemma slice_neg_snoc:
  "0 < n \<Longrightarrow> slice_neg n (slice_neg n xs @ [x]) = slice_neg n (xs @ [x])"
  by (cases "n \<le> length xs") (auto simp: slice_neg_def Suc_diff_le)

lemma foldl_handleNewDetection:
  "foldl handleNewDetection [] evs = slice_neg MAX_DATA_POINTS evs"
proof (induction evs rule: rev_induct)
  case Nil
  show ?case by (simp add: slice_neg_def)
next
  case (snoc e evs)
  have "0 < MAX_DATA_POINTS" by (simp add: MAX_DATA_POINTS_def)
  then show ?case
    using snoc by (simp add: handleNewDetection_def slice_neg_snoc)
qed

lemma drop_distinct_notin:
  assumes "distinct xs" and "i < k" and "k \<le> length xs"
  shows "xs ! i \<notin> set (drop k xs)"
proof
  assume "xs ! i \<in> set (drop k xs)"
  then obtain j where j: "j < length (drop k xs)" "drop k xs ! j = xs ! i"
    by (auto simp: in_set_conv_nth)
  then have "xs ! (k + j) = xs ! i" "k + j < length xs" by auto
  with assms have "k + j = i" by (simp add: nth_eq_iff_index_eq)
  with assms show False by simp
qed



text \<open>
  Claim C2. Appending a sequence of events one by one to the empty buffer: after every
  prefix of the sequence the buffer has at most 1800 entries; at the end it is the last
  \<open>min N 1800\<close> events in arrival order; and once more than 1800 events have arrived,
  the event that arrived 1801 steps ago is gone (for events that can be told apart).
\<close>

theorem history_buffer_bounded_fifo:
  "length (foldl handleNewDetection [] (take n evs)) \<le> 1800
   \<and> foldl handleNewDetection [] evs = drop (length evs - 1800) evs
   \<and> length (foldl handleNewDetection [] evs) = min (length evs) 1800
   \<and> (1800 < length evs \<longrightarrow> distinct evs \<longrightarrow>
        evs ! (length evs - 1801) \<notin> set (foldl handleNewDetection [] evs))"
proof -
  have eq: "foldl handleNewDetection [] xs = drop (length xs - 1800) xs" for xs :: "'a list"
    by (simp add: foldl_handleNewDetection slice_neg_def MAX_DATA_POINTS_def)
  have "1800 < length evs \<Longrightarrow> distinct evs \<Longrightarrow>
        evs ! (length evs - 1801) \<notin> set (drop (length evs - 1800) evs)"
    by (rule drop_distinct_notin) auto
  moreover have "length (drop (length (take n evs) - 1800) (take n evs)) \<le> 1800"
    by simp
  moreover have "length (drop (length evs - 1800) evs) = min (length evs) 1800"
    by simp
  ultimately show ?thesis
    by (simp only: eq) blast
qed

text \<open>The 1801 events \<open>0, \<dots>, 1800\<close>: the first one has been evicted.\<close>

theorem history_buffer_bounded_fifo_witness:
  "1800 < length [0..<1801] \<and> distinct [0..<1801]
   \<and> [0..<1801] ! (length [0..<1801] - 1801) \<notin> set (foldl handleNewDetection [] [0..<1801])"
proof -
  have a: "1800 < length [0..<1801]" by (simp only: length_upt)
  have b: "distinct [0..<1801]" by (rule distinct_upt)
  from history_buffer_bounded_fifo [of 0 "[0..<1801]"] a b show ?thesis by blast
qed

section \<open>The KPI snapshot\<close>








text \<open>
  The window has no upper end: an event of count 5 stamped an hour ahead of the clock is
  averaged with one of count 9 stamped two minutes ago.
\<close>

lemma kpi_window_has_no_upper_end:
  "calculateKpis example_platform 1758654807000 (handleNewDetection [skewed_event] fresh_event) =
     Inr (Some \<lparr> currentCount = JNum 9, averageCount = Finite 7, kpiFps = JNum 25,
                  kpiLastUpdate = JStr ''2025-09-23T19:11:27.000Z'' \<rparr>)"
  by (simp add: calculateKpis_def recentDetections_def newDate_def dateGe_def js_plus_def
      js_divide_def example_platform_def skewed_event_def fresh_event_def
      handleNewDetection_def slice_neg_def MAX_DATA_POINTS_def KPI_WINDOW_MINUTES_def)

section \<open>The transformation\<close>

lemma transform_JObj:
  "transform now (JObj kvs) =
     Inr \<lparr> timestamp = pick kvs ''timestamp'' (JStr now),
           count = (case map_of kvs ''bison_count'' of
                      None \<Rightarrow> pick kvs ''count'' (JNum 0)
                    | Some bc \<Rightarrow> if truthy bc then bc else pick kvs ''count'' (JNum 0)),
           movement = pick kvs ''movement'' (JStr ''stationary''),
           fps = pick kvs ''fps'' (JNum 0),
           source = pick kvs ''source'' (JStr ''rtsp'') \<rparr>"
  by (simp add: transform_def pick_def js_or_def split: option.split)

lemma js_or_valid:
  "field_ok P (Inr v) \<Longrightarrow> P dflt \<Longrightarrow> P (js_or v dflt)"
  by (auto simp: field_ok_def js_or_def)

lemma transform_valid:
  assumes "well_typed_payload data" and "transform now data = Inr d"
  shows "structurally_valid d"
proof -
  from assms(1) obtain ts bc c mv f src where
    p: "getProp data ''timestamp'' = Inr ts" "getProp data ''bison_count'' = Inr bc"
       "getProp data ''count'' = Inr c" "getProp data ''movement'' = Inr mv"
       "getProp data ''fps'' = Inr f" "getProp data ''source'' = Inr src"
    by (auto simp: well_typed_payload_def field_ok_def split: sum.splits)
  from assms(1) p have ok:
    "field_ok is_string (Inr ts)" "field_ok is_count (Inr bc)" "field_ok is_count (Inr c)"
    "field_ok is_movement (Inr mv)" "field_ok is_rate (Inr f)" "field_ok is_source (Inr src)"
    by (simp_all add: well_typed_payload_def)
  have d: "d = \<lparr> timestamp = js_or ts (JStr now), count = js_or (js_or bc c) (JNum 0),
                  movement = js_or mv (JStr ''stationary''), fps = js_or f (JNum 0),
                  source = js_or src (JStr ''rtsp'') \<rparr>"
    using assms(2) p by (simp add: transform_def)
  have "is_string (js_or ts (JStr now))"
    using ok(1) by (rule js_or_valid) simp
  moreover have "is_count (js_or (js_or bc c) (JNum 0))"
    using ok(2,3) by (auto simp: field_ok_def js_or_def)
  moreover have "is_movement (js_or mv (JStr ''stationary''))"
    using ok(4) by (rule js_or_valid) (simp add: is_movement_def)
  moreover have "is_rate (js_or f (JNum 0))"
    using ok(5) by (rule js_or_valid) simp
  moreover have "is_source (js_or src (JStr ''rtsp''))"
    using ok(6) by (rule js_or_valid) (simp add: is_source_def)
  ultimately show ?thesis
    by (simp add: d structurally_valid_def)
qed

text \<open>
  Claim C7, as stated, fails: the transformation checks no field. A record whose count
  is the string \<open>seven\<close> yields an event whose count is that string.
\<close>

theorem transform_unvalidated_counterexample:
  "transform ''2025-09-23T19:13:27.000Z'' (JObj [(''count'', JStr ''seven'')])
     = Inr \<lparr> timestamp = JStr ''2025-09-23T19:13:27.000Z'', count = JStr ''seven'',
              movement = JStr ''stationary'', fps = JNum 0, source = JStr ''rtsp'' \<rparr>
   \<and> \<not> structurally_valid
         \<lparr> timestamp = JStr ''2025-09-23T19:13:27.000Z'', count = JStr ''seven'',
           movement = JStr ''stationary'', fps = JNum 0, source = JStr ''rtsp'' \<rparr>"
  by (simp add: transform_def js_or_def structurally_valid_def)

lemma pick_defined: "dflt \<noteq> JUndefined \<Longrightarrow> pick kvs k dflt \<noteq> JUndefined"
  by (auto simp: pick_def split: option.split)

lemma transform_object:
  "transform now (JObj kvs) =
     Inr \<lparr> timestamp = pick kvs ''timestamp'' (JStr now),
           count = pick kvs ''bison_count'' (pick kvs ''count'' (JNum 0)),
           movement = pick kvs ''movement'' (JStr ''stationary''),
           fps = pick kvs ''fps'' (JNum 0),
           source = pick kvs ''source'' (JStr ''rtsp'') \<rparr>"
  by (simp add: transform_def pick_def js_or_def split: option.split)

lemma transform_not_object:
  "\<not> is_object data \<Longrightarrow> data \<noteq> JNull \<Longrightarrow> data \<noteq> JUndefined \<Longrightarrow>
   transform now data = Inr (defaults now)"
  by (cases data) (simp_all add: transform_def js_or_def defaults_def)

lemma transform_defined:
  assumes "data \<noteq> JNull" and "data \<noteq> JUndefined"
  shows "\<exists>d. transform now data = Inr d
           \<and> timestamp d \<noteq> JUndefined \<and> count d \<noteq> JUndefined \<and> movement d \<noteq> JUndefined
           \<and> fps d \<noteq> JUndefined \<and> source d \<noteq> JUndefined"
proof (cases "is_object data")
  case True
  then obtain kvs where "data = JObj kvs" by (cases data) auto
  then show ?thesis
    by (simp add: transform_object pick_defined)
next
  case False
  with assms have "transform now data = Inr (defaults now)"
    by (simp add: transform_not_object)
  then show ?thesis
    by (simp add: defaults_def)
qed

text \<open>
  Claim C7, amended. The transformation of any parsed value other than \<^verbatim>\<open>null\<close> yields
  an event, and none of its five fields is undefined (on \<^verbatim>\<open>null\<close> it throws, inside the
  caller's \<^verbatim>\<open>try\<close>). For a record, each field of the event is the payload's value when
  that is truthy and the default otherwise, the count being looked for under
  \<^verbatim>\<open>bison_count\<close> first and under \<^verbatim>\<open>count\<close> next; a parsed value that is no record
  yields the defaults. So a record that carries a value under \<^verbatim>\<open>bison_count\<close> and the
  record that carries it under \<^verbatim>\<open>count\<close> yield the same event, a record with none of the
  six fields yields the defaults, and the event is structurally valid whenever each field
  of the payload is falsy or valid, truthy values being passed on as they are.
\<close>

theorem transform_total_defaults:
  "(data \<noteq> JNull \<and> data \<noteq> JUndefined \<longrightarrow>
      (\<exists>d. transform now data = Inr d
           \<and> timestamp d \<noteq> JUndefined \<and> count d \<noteq> JUndefined \<and> movement d \<noteq> JUndefined
           \<and> fps d \<noteq> JUndefined \<and> source d \<noteq> JUndefined))
   \<and> transform now (JObj kvs0) =
        Inr \<lparr> timestamp = pick kvs0 ''timestamp'' (JStr now),
              count = pick kvs0 ''bison_count'' (pick kvs0 ''count'' (JNum 0)),
              movement = pick kvs0 ''movement'' (JStr ''stationary''),
              fps = pick kvs0 ''fps'' (JNum 0),
              source = pick kvs0 ''source'' (JStr ''rtsp'') \<rparr>
   \<and> (\<not> is_object data1 \<and> data1 \<noteq> JNull \<and> data1 \<noteq> JUndefined \<longrightarrow>
        transform now data1 = Inr (defaults now))
   \<and> transform now JNull = Inl TypeError
   \<and> (map_of kvs ''bison_count'' = None \<and> map_of kvs ''count'' = None \<longrightarrow>
        transform now (JObj ((''bison_count'', v) # kvs)) = transform now (JObj ((''count'', v) # kvs)))
   \<and> ((\<forall>k \<in> set [''timestamp'', ''bison_count'', ''count'', ''movement'', ''fps'', ''source''].
          map_of kvs' k = None) \<longrightarrow> transform now (JObj kvs') = Inr (defaults now))
   \<and> (well_typed_payload data \<longrightarrow> (\<forall>d. transform now data = Inr d \<longrightarrow> structurally_valid d))"
proof -
  have either: "transform now (JObj ((''bison_count'', v) # kvs)) = transform now (JObj ((''count'', v) # kvs))"
    if "map_of kvs ''bison_count'' = None" "map_of kvs ''count'' = None"
    using that by (simp add: transform_JObj pick_def)
  have dflt: "transform now (JObj kvs') = Inr (defaults now)"
    if "\<forall>k \<in> set [''timestamp'', ''bison_count'', ''count'', ''movement'', ''fps'', ''source''].
          map_of kvs' k = None"
    using that by (simp add: transform_JObj pick_def defaults_def)
  have null: "transform now JNull = Inl TypeError"
    by (simp add: transform_def)
  from either dflt null transform_defined [of data now] transform_object [of now kvs0]
    transform_not_object [of data1 now] transform_valid [of data now]
  show ?thesis
    by blast
qed

text \<open>
  A full, valid record; a record whose count is a word; the number 42; a record with
  only a frame rate, given the count 3 under either name; and a record with none of the
  six fields.
\<close>

theorem transform_total_defaults_witness:
  "example_payload \<noteq> JNull \<and> example_payload \<noteq> JUndefined
   \<and> transform ''2025-09-23T19:13:28.000Z'' (JObj [(''count'', JStr ''seven'')]) =
       Inr \<lparr> timestamp = JStr ''2025-09-23T19:13:28.000Z'', count = JStr ''seven'',
             movement = JStr ''stationary'', fps = JNum 0, source = JStr ''rtsp'' \<rparr>
   \<and> \<not> is_object (JNum 42) \<and> JNum 42 \<noteq> JNull \<and> JNum 42 \<noteq> JUndefined
   \<and> transform ''2025-09-23T19:13:28.000Z'' (JNum 42) = Inr (defaults ''2025-09-23T19:13:28.000Z'')
   \<and> well_typed_payload example_payload
   \<and> transform ''2025-09-23T19:13:28.000Z'' example_payload =
       Inr \<lparr> timestamp = JStr ''2025-09-23T19:13:27.000Z'', count = JNum 3,
             movement = JStr ''north'', fps = JNum 24.5, source = JStr ''rtsp'' \<rparr>
   \<and> structurally_valid
       \<lparr> timestamp = JStr ''2025-09-23T19:13:27.000Z'', count = JNum 3,
         movement = JStr ''north'', fps = JNum 24.5, source = JStr ''rtsp'' \<rparr>
   \<and> map_of [(''fps'', JNum 24.5)] ''bison_count'' = None
   \<and> map_of [(''fps'', JNum 24.5)] ''count'' = None
   \<and> transform ''2025-09-23T19:13:28.000Z'' (JObj [(''bison_count'', JNum 3), (''fps'', JNum 24.5)])
       = transform ''2025-09-23T19:13:28.000Z'' (JObj [(''count'', JNum 3), (''fps'', JNum 24.5)])
   \<and> map_of [(''id'', JNum 1)] ''timestamp'' = None
   \<and> map_of [(''id'', JNum 1)] ''bison_count'' = None
   \<and> map_of [(''id'', JNum 1)] ''count'' = None
   \<and> map_of [(''id'', JNum 1)] ''movement'' = None
   \<and> map_of [(''id'', JNum 1)] ''fps'' = None
   \<and> map_of [(''id'', JNum 1)] ''source'' = None
   \<and> transform ''2025-09-23T19:13:28.000Z'' (JObj [(''id'', JNum 1)])
       = Inr (defaults ''2025-09-23T19:13:28.000Z'')"
proof -
  have wt: "well_typed_payload example_payload"
    by (simp add: well_typed_payload_def field_ok_def example_payload_def is_movement_def
        is_source_def)
  have tr: "transform ''2025-09-23T19:13:28.000Z'' example_payload =
       Inr \<lparr> timestamp = JStr ''2025-09-23T19:13:27.000Z'', count = JNum 3,
             movement = JStr ''north'', fps = JNum 24.5, source = JStr ''rtsp'' \<rparr>"
    by (simp add: transform_def example_payload_def js_or_def)
  have ne: "example_payload \<noteq> JNull" "example_payload \<noteq> JUndefined"
    by (simp_all add: example_payload_def)
  note inst = transform_total_defaults [where data = example_payload
      and now = "''2025-09-23T19:13:28.000Z''" and kvs = "[(''fps'', JNum 24.5)]"
      and v = "JNum 3" and kvs' = "[(''id'', JNum 1)]"
      and ?kvs0.0 = "[(''count'', JStr ''seven'')]" and ?data1.0 = "JNum 42"]
  from inst have obj:
    "transform ''2025-09-23T19:13:28.000Z'' (JObj [(''count'', JStr ''seven'')]) =
       Inr \<lparr> timestamp = JStr ''2025-09-23T19:13:28.000Z'', count = JStr ''seven'',
             movement = JStr ''stationary'', fps = JNum 0, source = JStr ''rtsp'' \<rparr>"
    by (simp add: pick_def)
  have prim: "\<not> is_object (JNum 42)" "JNum 42 \<noteq> JNull" "JNum 42 \<noteq> JUndefined"
    by simp_all
  from inst prim have num:
    "transform ''2025-09-23T19:13:28.000Z'' (JNum 42) = Inr (defaults ''2025-09-23T19:13:28.000Z'')"
    by blast
  from inst wt tr have valid: "structurally_valid
       \<lparr> timestamp = JStr ''2025-09-23T19:13:27.000Z'', count = JNum 3,
         movement = JStr ''north'', fps = JNum 24.5, source = JStr ''rtsp'' \<rparr>"
    by blast
  have abs1: "map_of [(''fps'', JNum 24.5)] ''bison_count'' = None"
    "map_of [(''fps'', JNum 24.5)] ''count'' = None"
    by simp_all
  have abs2: "\<forall>k \<in> set [''timestamp'', ''bison_count'', ''count'', ''movement'', ''fps'', ''source''].
          map_of [(''id'', JNum 1)] k = None"
    by simp
  from inst abs1 have same:
    "transform ''2025-09-23T19:13:28.000Z'' (JObj [(''bison_count'', JNum 3), (''fps'', JNum 24.5)])
       = transform ''2025-09-23T19:13:28.000Z'' (JObj [(''count'', JNum 3), (''fps'', JNum 24.5)])"
    by blast
  from inst abs2 have dflt: "transform ''2025-09-23T19:13:28.000Z'' (JObj [(''id'', JNum 1)])
       = Inr (defaults ''2025-09-23T19:13:28.000Z'')"
    by blast
  from abs2 have abs3: "map_of [(''id'', JNum 1)] ''timestamp'' = None"
    "map_of [(''id'', JNum 1)] ''bison_count'' = None" "map_of [(''id'', JNum 1)] ''count'' = None"
    "map_of [(''id'', JNum 1)] ''movement'' = None" "map_of [(''id'', JNum 1)] ''fps'' = None"
    "map_of [(''id'', JNum 1)] ''source'' = None"
    by simp_all
  from ne obj prim num wt tr valid abs1 same abs3 dflt show ?thesis
    by (intro conjI)
qed

text \<open>
  Claim C10. In a record whose \<^verbatim>\<open>bison_count\<close> is there but falsy, every field of the
  event, the count from the \<^verbatim>\<open>count\<close> field included, is the payload's value when that
  is truthy and the default otherwise, whether or not the key is there.
\<close>

theorem transform_selects_by_truthiness:
  assumes "map_of kvs ''bison_count'' = Some bc" and "\<not> truthy bc"
  shows "transform now (JObj kvs) =
           Inr \<lparr> timestamp = pick kvs ''timestamp'' (JStr now),
                 count = pick kvs ''count'' (JNum 0),
                 movement = pick kvs ''movement'' (JStr ''stationary''),
                 fps = pick kvs ''fps'' (JNum 0),
                 source = pick kvs ''source'' (JStr ''rtsp'') \<rparr>"
  using assms by (simp add: transform_JObj)

text \<open>A zero \<^verbatim>\<open>bison_count\<close> beside a count of 4, an empty movement and a zero frame rate.\<close>

theorem transform_selects_by_truthiness_witness:
  "map_of [(''bison_count'', JNum 0), (''count'', JNum 4), (''movement'', JStr []), (''fps'', JNum 0)]
       ''bison_count'' = Some (JNum 0)
   \<and> \<not> truthy (JNum 0)
   \<and> transform ''2025-09-23T19:13:28.000Z''
       (JObj [(''bison_count'', JNum 0), (''count'', JNum 4), (''movement'', JStr []), (''fps'', JNum 0)])
     = Inr \<lparr> timestamp = JStr ''2025-09-23T19:13:28.000Z'', count = JNum 4,
             movement = JStr ''stationary'', fps = JNum 0, source = JStr ''rtsp'' \<rparr>"
  using transform_selects_by_truthiness
    [of "[(''bison_count'', JNum 0), (''count'', JNum 4), (''movement'', JStr []), (''fps'', JNum 0)]"
        "JNum 0" "''2025-09-23T19:13:28.000Z''"]
  by (simp add: pick_def)

section \<open>The connection manager\<close>

lemmas handler_defs = onMessage_def onStatusChange_def updateConnection_def close_def
  clearTimeout_def settle_def log_def pollData_def startPolling_def startSSE_def resolve_def
  reject_def start_def stop_def onopen_def onmessage_def onerror_def onTimeout_def onRetry_def
  pollSettled_def

lemma wellFormed_initial: "wellFormed initial"
  by (simp add: wellFormed_def initial_def)

lemma wellFormed_step: "wellFormed c \<Longrightarrow> wellFormed (step e c)"
  by (cases e)
     (auto simp: step_def wellFormed_def handler_defs getLatest_def Let_def
           split: option.splits sum.splits PollOutcome.splits)

lemma wellFormed_run: "wellFormed c \<Longrightarrow> wellFormed (run evs c)"
  by (induction evs arbitrary: c) (simp_all add: wellFormed_step)

lemma pollingArmed_step: "e \<noteq> CallStop \<Longrightarrow> pollingArmed c \<Longrightarrow> pollingArmed (step e c)"
  by (cases e)
     (auto simp: step_def pollingArmed_def handler_defs getLatest_def Let_def nth_append
           split: option.splits sum.splits PollOutcome.splits)

lemma pollingArmed_run:
  "CallStop \<notin> set evs \<Longrightarrow> pollingArmed c \<Longrightarrow> pollingArmed (run evs c)"
proof (induction evs arbitrary: c)
  case Nil
  then show ?case by simp
next
  case (Cons e evs)
  from Cons.prems have "e \<noteq> CallStop" "CallStop \<notin> set evs" by auto
  with Cons.prems(2) have "pollingArmed (step e c)" by (simp add: pollingArmed_step)
  with Cons.IH \<open>CallStop \<notin> set evs\<close> show ?case by simp
qed




subsection \<open>Reconnection and fallback\<close>

lemma onerror_retry:
  assumes "reconnectAttempts c < 3"
  shows "reconnectAttempts (onerror k c) = reconnectAttempts c + 1
      \<and> reconnectTimers (onerror k c) =
          reconnectTimers c @ [\<lparr> delayMs = 2000 * (reconnectAttempts c + 1), pending = True \<rparr>]
      \<and> intervals (onerror k c) = intervals c
      \<and> pollingInterval (onerror k c) = pollingInterval c
      \<and> length (connections (onerror k c)) = length (connections c)"
  using assms
  by (simp add: onerror_def clearTimeout_def updateConnection_def onStatusChange_def
      maxReconnectAttempts_def Let_def)

lemma reject_unsettled:
  assumes "\<not> settled (connections c ! k)"
  shows "pollingArmed (reject k c) \<and> reconnectAttempts (reject k c) = reconnectAttempts c
      \<and> reconnectTimers (reject k c) = reconnectTimers c"
  using assms
  by (simp add: reject_def settle_def updateConnection_def log_def startPolling_def pollData_def
      onStatusChange_def pollingArmed_def Let_def)

lemma onerror_exhausted:
  assumes "3 \<le> reconnectAttempts c" and "k < length (connections c)"
    and "\<not> settled (connections c ! k)"
  shows "pollingArmed (onerror k c) \<and> reconnectAttempts (onerror k c) = reconnectAttempts c
      \<and> reconnectTimers (onerror k c) = reconnectTimers c"
proof -
  let ?c2 = "onStatusChange error (clearTimeout k c)"
  have s: "\<not> settled (connections ?c2 ! k)"
    using assms(2,3) by (simp add: onStatusChange_def clearTimeout_def updateConnection_def)
  have e: "onerror k c = reject k ?c2"
    using assms(1)
    by (simp add: onerror_def maxReconnectAttempts_def onStatusChange_def clearTimeout_def
        updateConnection_def Let_def)
  have f: "reconnectAttempts ?c2 = reconnectAttempts c" "reconnectTimers ?c2 = reconnectTimers c"
    by (simp_all add: onStatusChange_def clearTimeout_def updateConnection_def)
  from reject_unsettled [OF s] e f show ?thesis by simp
qed

text \<open>
  Claim C1, as stated, fails. A connect-timeout is not retried: after one attempt that
  times out the client polls, with the attempt counter at 0 and no retry scheduled. And
  three consecutive attempts that fail by a transport error do not start polling: a third
  retry is pending, and it takes a fourth failure.
\<close>

theorem fallback_counterexample:
  "feasible [CallStart, ConnectTimeout 0] initial
   \<and> pollingArmed (run [CallStart, ConnectTimeout 0] initial)
   \<and> length (connections (run [CallStart, ConnectTimeout 0] initial)) = 1
   \<and> reconnectAttempts (run [CallStart, ConnectTimeout 0] initial) = 0
   \<and> reconnectTimers (run [CallStart, ConnectTimeout 0] initial) = []
   \<and> feasible [CallStart, EsError 0 True, RetryTimeout 0, EsError 1 True, RetryTimeout 1,
               EsError 2 True] initial
   \<and> \<not> pollingArmed (run [CallStart, EsError 0 True, RetryTimeout 0, EsError 1 True,
                            RetryTimeout 1, EsError 2 True] initial)
   \<and> reconnectTimers (run [CallStart, EsError 0 True, RetryTimeout 0, EsError 1 True,
                            RetryTimeout 1, EsError 2 True] initial)
       = [\<lparr> delayMs = 2000, pending = False \<rparr>, \<lparr> delayMs = 4000, pending = False \<rparr>,
          \<lparr> delayMs = 6000, pending = True \<rparr>]"
  by (simp add: step_def initial_def handler_defs pollingArmed_def maxReconnectAttempts_def
      getConnectionType_def Let_def)

text \<open>
  Claim C1, amended. A transport error while fewer than 3 reconnections have been
  counted counts one more and schedules a retry after 2000 ms times the new count, and
  starts no polling; when the retry fires, it opens a new connection if the EventSource
  the manager holds is closed, and does nothing otherwise. A transport error with the
  count at 3, on a connection whose promise is unsettled, starts polling and schedules
  nothing. A connect-timeout on such a connection closes the EventSource and starts
  polling at once, whatever the count, which it leaves alone. Once an interval is armed,
  one stays armed through every run without \<^verbatim>\<open>stop\<close>.
\<close>

theorem reconnect_policy:
  "(enabled (EsError k fatal) c \<and> reconnectAttempts c < 3 \<longrightarrow>
      reconnectAttempts (step (EsError k fatal) c) = reconnectAttempts c + 1
      \<and> reconnectTimers (step (EsError k fatal) c) =
          reconnectTimers c @ [\<lparr> delayMs = 2000 * (reconnectAttempts c + 1), pending = True \<rparr>]
      \<and> intervals (step (EsError k fatal) c) = intervals c
      \<and> pollingInterval (step (EsError k fatal) c) = pollingInterval c
      \<and> length (connections (step (EsError k fatal) c)) = length (connections c))
   \<and> (enabled (RetryTimeout j) c1 \<longrightarrow>
      connections (step (RetryTimeout j) c1) =
        (if (case eventSource c1 of
               Some k \<Rightarrow> readyState (connections c1 ! k) = CLOSED
             | None \<Rightarrow> False)
         then connections c1 @
                [\<lparr> readyState = CONNECTING, timeoutMs = 10000, timeoutPending = True,
                   settled = False, awaitedByStart = False \<rparr>]
         else connections c1)
      \<and> reconnectAttempts (step (RetryTimeout j) c1) = reconnectAttempts c1
      \<and> pollingInterval (step (RetryTimeout j) c1) = pollingInterval c1)
   \<and> (enabled (EsError k2 fatal2) c2 \<and> 3 \<le> reconnectAttempts c2
        \<and> \<not> settled (connections c2 ! k2) \<longrightarrow>
      pollingArmed (step (EsError k2 fatal2) c2)
      \<and> reconnectAttempts (step (EsError k2 fatal2) c2) = reconnectAttempts c2
      \<and> reconnectTimers (step (EsError k2 fatal2) c2) = reconnectTimers c2)
   \<and> (enabled (ConnectTimeout k3) c3 \<and> \<not> settled (connections c3 ! k3) \<longrightarrow>
      pollingArmed (step (ConnectTimeout k3) c3)
      \<and> reconnectAttempts (step (ConnectTimeout k3) c3) = reconnectAttempts c3
      \<and> reconnectTimers (step (ConnectTimeout k3) c3) = reconnectTimers c3
      \<and> (eventSource c3 = Some k3 \<longrightarrow>
            readyState (connections (step (ConnectTimeout k3) c3) ! k3) = CLOSED))
   \<and> (pollingArmed c4 \<and> CallStop \<notin> set evs \<longrightarrow> pollingArmed (run evs c4))"
proof -
  let ?upd = "\<lambda>k fatal c. updateConnection k
                (\<lambda>x. x\<lparr> readyState := (if fatal then CLOSED else CONNECTING) \<rparr>) c"
  have frame: "reconnectAttempts (?upd k fatal c) = reconnectAttempts c"
    "reconnectTimers (?upd k fatal c) = reconnectTimers c"
    "intervals (?upd k fatal c) = intervals c"
    "pollingInterval (?upd k fatal c) = pollingInterval c"
    "length (connections (?upd k fatal c)) = length (connections c)"
    for k fatal c
    by (simp_all add: updateConnection_def)
  have retry: "reconnectAttempts (step (EsError k fatal) c) = reconnectAttempts c + 1
      \<and> reconnectTimers (step (EsError k fatal) c) =
          reconnectTimers c @ [\<lparr> delayMs = 2000 * (reconnectAttempts c + 1), pending = True \<rparr>]
      \<and> intervals (step (EsError k fatal) c) = intervals c
      \<and> pollingInterval (step (EsError k fatal) c) = pollingInterval c
      \<and> length (connections (step (EsError k fatal) c)) = length (connections c)"
    if "enabled (EsError k fatal) c" "reconnectAttempts c < 3"
  proof -
    from that(2) have "reconnectAttempts (?upd k fatal c) < 3" by (simp add: frame)
    from onerror_retry [OF this, of k] that(1) show ?thesis
      by (simp add: step_def frame)
  qed
  have timer: "connections (step (RetryTimeout j) c1) =
        (if (case eventSource c1 of
               Some k \<Rightarrow> readyState (connections c1 ! k) = CLOSED
             | None \<Rightarrow> False)
         then connections c1 @
                [\<lparr> readyState = CONNECTING, timeoutMs = 10000, timeoutPending = True,
                   settled = False, awaitedByStart = False \<rparr>]
         else connections c1)
      \<and> reconnectAttempts (step (RetryTimeout j) c1) = reconnectAttempts c1
      \<and> pollingInterval (step (RetryTimeout j) c1) = pollingInterval c1"
    if "enabled (RetryTimeout j) c1"
    using that by (simp add: step_def onRetry_def startSSE_def split: option.split)
  have exhausted: "pollingArmed (step (EsError k2 fatal2) c2)
      \<and> reconnectAttempts (step (EsError k2 fatal2) c2) = reconnectAttempts c2
      \<and> reconnectTimers (step (EsError k2 fatal2) c2) = reconnectTimers c2"
    if "enabled (EsError k2 fatal2) c2" "3 \<le> reconnectAttempts c2"
      "\<not> settled (connections c2 ! k2)"
  proof -
    from that have "3 \<le> reconnectAttempts (?upd k2 fatal2 c2)"
      "k2 < length (connections (?upd k2 fatal2 c2))"
      "\<not> settled (connections (?upd k2 fatal2 c2) ! k2)"
      by (simp_all add: updateConnection_def)
    from onerror_exhausted [OF this] that(1) show ?thesis
      by (simp add: step_def frame)
  qed
  have timeout: "pollingArmed (step (ConnectTimeout k3) c3)
      \<and> reconnectAttempts (step (ConnectTimeout k3) c3) = reconnectAttempts c3
      \<and> reconnectTimers (step (ConnectTimeout k3) c3) = reconnectTimers c3
      \<and> (eventSource c3 = Some k3 \<longrightarrow>
            readyState (connections (step (ConnectTimeout k3) c3) ! k3) = CLOSED)"
    if "enabled (ConnectTimeout k3) c3" "\<not> settled (connections c3 ! k3)"
  proof -
    let ?c = "case eventSource (clearTimeout k3 c3) of
                Some j \<Rightarrow> close j (clearTimeout k3 c3) | None \<Rightarrow> clearTimeout k3 c3"
    from that have k: "k3 < length (connections c3)" by simp
    have u: "\<not> settled (connections ?c ! k3)"
      using that(2) k
      by (simp add: close_def clearTimeout_def updateConnection_def nth_list_update
          split: option.split)
    have f: "reconnectAttempts ?c = reconnectAttempts c3" "reconnectTimers ?c = reconnectTimers c3"
      by (simp_all add: close_def clearTimeout_def updateConnection_def split: option.split)
    have s: "step (ConnectTimeout k3) c3 = reject k3 ?c"
      using that(1) by (simp add: step_def onTimeout_def)
    have r: "connections (reject k3 ?c) ! k3 = (connections ?c ! k3)\<lparr> settled := True \<rparr>"
      using u k
      by (simp add: reject_def settle_def updateConnection_def log_def startPolling_def
          pollData_def onStatusChange_def close_def clearTimeout_def Let_def split: option.split)
    have cl: "readyState (connections ?c ! k3) = CLOSED" if "eventSource c3 = Some k3"
      using that k by (simp add: close_def clearTimeout_def updateConnection_def)
    from reject_unsettled [OF u] f s r cl show ?thesis
      by simp
  qed
  from retry timer exhausted timeout pollingArmed_run [of evs c4] show ?thesis
    by blast
qed

text \<open>
  The first error of a session, the retry that follows it, the error with the retries
  used up, the timeout of a first attempt, and two more events of a client that polls.
\<close>

theorem reconnect_policy_witness:
  "enabled (EsError 0 True) connecting_client \<and> reconnectAttempts connecting_client < 3
   \<and> reconnectAttempts (step (EsError 0 True) connecting_client) = 1
   \<and> reconnectTimers (step (EsError 0 True) connecting_client)
       = [\<lparr> delayMs = 2000, pending = True \<rparr>]
   \<and> enabled (RetryTimeout 0) retrying_client
   \<and> length (connections (step (RetryTimeout 0) retrying_client)) = 2
   \<and> enabled (EsError 3 True) exhausted_client \<and> 3 \<le> reconnectAttempts exhausted_client
   \<and> \<not> settled (connections exhausted_client ! 3)
   \<and> pollingArmed (step (EsError 3 True) exhausted_client)
   \<and> enabled (ConnectTimeout 0) connecting_client
   \<and> \<not> settled (connections connecting_client ! 0)
   \<and> pollingArmed (step (ConnectTimeout 0) connecting_client)
   \<and> pollingArmed polling_client
   \<and> CallStop \<notin> set [IntervalTick 0, EsOpen 0, IntervalTick 0]
   \<and> pollingArmed (run [IntervalTick 0, EsOpen 0, IntervalTick 0] polling_client)"
proof -
  have c: "connecting_client =
      initial\<lparr> eventSource := Some 0,
               connections := [\<lparr> readyState = CONNECTING, timeoutMs = 10000,
                                 timeoutPending = True, settled = False, awaitedByStart = True \<rparr>] \<rparr>"
    by (simp add: connecting_client_def step_def start_def startSSE_def initial_def)
  have h1: "enabled (EsError 0 True) connecting_client" "reconnectAttempts connecting_client < 3"
    "enabled (ConnectTimeout 0) connecting_client" "\<not> settled (connections connecting_client ! 0)"
    by (simp_all add: c initial_def)
  have h2: "enabled (RetryTimeout 0) retrying_client"
    "eventSource retrying_client = Some 0"
    "readyState (connections retrying_client ! 0) = CLOSED"
    "length (connections retrying_client) = 1"
    by (simp_all add: retrying_client_def step_def initial_def handler_defs
        maxReconnectAttempts_def getConnectionType_def Let_def)
  have h3: "enabled (EsError 3 True) exhausted_client" "3 \<le> reconnectAttempts exhausted_client"
    "\<not> settled (connections exhausted_client ! 3)"
    by (simp_all add: exhausted_client_def step_def initial_def handler_defs
        maxReconnectAttempts_def getConnectionType_def Let_def)
  have h4: "pollingArmed polling_client"
    by (simp add: polling_client_def step_def initial_def handler_defs pollingArmed_def
        getConnectionType_def Let_def)
  have h5: "CallStop \<notin> set [IntervalTick 0, EsOpen 0, IntervalTick 0]"
    by simp
  note inst = reconnect_policy [where k = 0 and fatal = True and c = connecting_client
      and j = 0 and ?c1.0 = retrying_client and ?k2.0 = 3 and ?fatal2.0 = True
      and ?c2.0 = exhausted_client and ?k3.0 = 0 and ?c3.0 = connecting_client
      and ?c4.0 = polling_client and evs = "[IntervalTick 0, EsOpen 0, IntervalTick 0]"]
  from inst h1 have r1: "reconnectAttempts (step (EsError 0 True) connecting_client) = 1"
    "reconnectTimers (step (EsError 0 True) connecting_client)
       = [\<lparr> delayMs = 2000, pending = True \<rparr>]"
    by (simp_all add: c initial_def)
  from inst h2 have r2: "length (connections (step (RetryTimeout 0) retrying_client)) = 2"
    by simp
  from inst h3 have r3: "pollingArmed (step (EsError 3 True) exhausted_client)"
    by blast
  from inst h1 have r4: "pollingArmed (step (ConnectTimeout 0) connecting_client)"
    by blast
  from inst h4 h5 have r5: "pollingArmed (run [IntervalTick 0, EsOpen 0, IntervalTick 0] polling_client)"
    by blast
  from h1 h2(1) h3 h4 h5 r1 r2 r3 r4 r5 show ?thesis
    by (intro conjI)
qed

text \<open>
  Nor does the fallback close an EventSource that is reconnecting by itself: after four
  errors that leave it connecting the client polls, and when the EventSource then opens,
  the manager reports the stream while the interval keeps ticking.
\<close>

lemma stream_reopens_beside_polling:
  "feasible [CallStart, EsError 0 False, EsError 0 False, EsError 0 False, EsError 0 False,
             EsOpen 0] initial
   \<and> pollingArmed (run [CallStart, EsError 0 False, EsError 0 False, EsError 0 False,
                         EsError 0 False] initial)
   \<and> pollingArmed (run [CallStart, EsError 0 False, EsError 0 False, EsError 0 False,
                         EsError 0 False, EsOpen 0] initial)
   \<and> getConnectionType (run [CallStart, EsError 0 False, EsError 0 False, EsError 0 False,
                              EsError 0 False, EsOpen 0] initial) = sse"
  by (simp add: step_def initial_def handler_defs pollingArmed_def maxReconnectAttempts_def
      getConnectionType_def Let_def)

subsection \<open>Stopping\<close>

lemma stop_wellFormed:
  assumes "wellFormed c"
  shows "eventSource (stop c) = None \<and> pollingInterval (stop c) = None
   \<and> calls (stop c) = calls c @ [OnStatusChange disconnected]
   \<and> polls (stop c) = polls c
   \<and> stop (stop c) = (stop c)\<lparr> calls := calls (stop c) @ [OnStatusChange disconnected] \<rparr>
   \<and> (eventSource c = Some k \<longrightarrow>
        readyState (connections (stop c) ! k) = CLOSED
        \<and> step (EsOpen k) (stop c) = stop c
        \<and> step (EsError k fatal) (stop c) = stop c
        \<and> step (EsMessage k payload now) (stop c) = stop c)
   \<and> (pollingInterval c = Some i \<longrightarrow>
        \<not> active (intervals (stop c) ! i) \<and> step (IntervalTick i) (stop c) = stop c)
   \<and> calls (step (RetryTimeout j) (stop c)) = calls (stop c)
   \<and> connections (step (RetryTimeout j) (stop c)) = connections (stop c)"
  using assms
  by (auto simp: wellFormed_def step_def stop_def close_def updateConnection_def onStatusChange_def
      onRetry_def getConnectionType_def Let_def split: option.splits)

text \<open>
  Claim C4, as stated, fails: \<^verbatim>\<open>stop\<close> ends with an unconditional
  \<^verbatim>\<open>onStatusChange('disconnected')\<close>, so a second call fires the status callback again.
\<close>

theorem second_stop_counterexample:
  "calls (run [CallStart, CallStop] initial) = [OnStatusChange disconnected]
   \<and> calls (run [CallStart, CallStop, CallStop] initial)
       = [OnStatusChange disconnected, OnStatusChange disconnected]"
  by (simp add: step_def initial_def handler_defs Let_def)

text \<open>
  Claim C4, amended. In every state a session can reach, \<^verbatim>\<open>stop\<close> closes the EventSource
  and clears the interval the manager holds, forgets both, leaves outstanding polls alone
  and calls the status callback once with \<open>disconnected\<close>; afterwards that EventSource
  fires nothing, that interval does not tick and a retry timer that fires reconnects
  nothing and calls nothing; a second \<^verbatim>\<open>stop\<close> releases nothing again and only calls the
  status callback once more.
\<close>

theorem stop_releases_once:
  assumes "c = run evs initial"
  shows "eventSource (stop c) = None \<and> pollingInterval (stop c) = None
   \<and> calls (stop c) = calls c @ [OnStatusChange disconnected]
   \<and> polls (stop c) = polls c
   \<and> stop (stop c) = (stop c)\<lparr> calls := calls (stop c) @ [OnStatusChange disconnected] \<rparr>
   \<and> (eventSource c = Some k \<longrightarrow>
        readyState (connections (stop c) ! k) = CLOSED
        \<and> step (EsOpen k) (stop c) = stop c
        \<and> step (EsError k fatal) (stop c) = stop c
        \<and> step (EsMessage k payload now) (stop c) = stop c)
   \<and> (pollingInterval c = Some i \<longrightarrow>
        \<not> active (intervals (stop c) ! i) \<and> step (IntervalTick i) (stop c) = stop c)
   \<and> calls (step (RetryTimeout j) (stop c)) = calls (stop c)
   \<and> connections (step (RetryTimeout j) (stop c)) = connections (stop c)"
proof -
  from assms have "wellFormed c"
    by (simp add: wellFormed_run wellFormed_initial)
  then show ?thesis by (rule stop_wellFormed)
qed

text \<open>A client that polls after a timeout is stopped, and stopped again.\<close>

theorem stop_releases_once_witness:
  "polling_client = run [CallStart, ConnectTimeout 0] initial
   \<and> eventSource polling_client = Some 0
   \<and> pollingInterval polling_client = Some 0
   \<and> readyState (connections (stop polling_client) ! 0) = CLOSED
   \<and> \<not> active (intervals (stop polling_client) ! 0)
   \<and> step (IntervalTick 0) (stop polling_client) = stop polling_client
   \<and> calls (stop (stop polling_client))
       = [OnStatusChange connected, OnStatusChange disconnected, OnStatusChange disconnected]"
proof -
  have h: "polling_client = run [CallStart, ConnectTimeout 0] initial"
    by (simp add: polling_client_def)
  have e: "eventSource polling_client = Some 0" "pollingInterval polling_client = Some 0"
    "calls polling_client = [OnStatusChange connected]"
    by (simp_all add: polling_client_def step_def initial_def handler_defs
        getConnectionType_def Let_def)
  note inst = stop_releases_once [OF h, where k = 0 and i = 0]
  from inst e have r: "readyState (connections (stop polling_client) ! 0) = CLOSED"
    "\<not> active (intervals (stop polling_client) ! 0)"
    "step (IntervalTick 0) (stop polling_client) = stop polling_client"
    by blast+
  from inst have "calls (stop (stop polling_client)) =
      calls ((stop polling_client)\<lparr> calls := calls (stop polling_client) @ [OnStatusChange disconnected] \<rparr>)"
    by simp
  with inst e(3) have c: "calls (stop (stop polling_client))
       = [OnStatusChange connected, OnStatusChange disconnected, OnStatusChange disconnected]"
    by simp
  from h e(1,2) r c show ?thesis
    by (intro conjI)
qed

text \<open>
  What \<^verbatim>\<open>stop\<close> does not reach is the 10 s timer of a connection: stopped while the
  first attempt is pending, the client starts polling when that timer fires.
\<close>

lemma connect_timeout_survives_stop:
  "feasible [CallStart, CallStop, ConnectTimeout 0] initial
   \<and> calls (run [CallStart, CallStop, ConnectTimeout 0] initial)
       = [OnStatusChange disconnected, OnStatusChange connected]
   \<and> pollingArmed (run [CallStart, CallStop, ConnectTimeout 0] initial)"
  by (simp add: step_def initial_def handler_defs pollingArmed_def getConnectionType_def Let_def)

subsection \<open>Starting\<close>

text \<open>
  Claim C8, as stated, fails: \<^verbatim>\<open>start\<close> has no guard. A second call opens a second
  EventSource beside the first, and a later \<^verbatim>\<open>stop\<close> closes only the second.
\<close>

theorem double_start_counterexample:
  "feasible [CallStart, CallStart] initial
   \<and> activeChannels (run [CallStart] initial) = 1
   \<and> activeChannels (run [CallStart, CallStart] initial) = 2
   \<and> eventSource (run [CallStart, CallStart, CallStop] initial) = None
   \<and> pollingInterval (run [CallStart, CallStart, CallStop] initial) = None
   \<and> activeChannels (run [CallStart, CallStart, CallStop] initial) = 1"
  by (simp add: step_def initial_def handler_defs activeChannels_def Let_def)

text \<open>
  Claim C8, amended. Every call of \<^verbatim>\<open>start\<close>, in whatever state, opens one more
  EventSource and makes it the one the manager holds; the connections and intervals there
  were stay as they are, and no callback is called.
\<close>

theorem start_always_opens:
  "activeChannels (step CallStart c) = Suc (activeChannels c)
   \<and> eventSource (step CallStart c) = Some (length (connections c))
   \<and> connections (step CallStart c) =
        connections c @ [\<lparr> readyState = CONNECTING, timeoutMs = 10000, timeoutPending = True,
                            settled = False, awaitedByStart = True \<rparr>]
   \<and> intervals (step CallStart c) = intervals c
   \<and> pollingInterval (step CallStart c) = pollingInterval c
   \<and> calls (step CallStart c) = calls c"
  by (simp add: step_def start_def startSSE_def activeChannels_def)

text \<open>A client that polls is started again: the interval and the new EventSource run.\<close>

theorem start_always_opens_witness:
  "activeChannels polling_client = 1
   \<and> activeChannels (step CallStart polling_client) = 2
   \<and> eventSource (step CallStart polling_client) = Some 1"
proof -
  have a: "activeChannels polling_client = 1" "length (connections polling_client) = 1"
    by (simp_all add: polling_client_def step_def initial_def handler_defs activeChannels_def
        getConnectionType_def Let_def)
  with start_always_opens [of polling_client] show ?thesis
    by simp
qed

subsection \<open>Messages that cannot be decoded\<close>

text \<open>
  Claim C6, as stated, fails on the polling transport: when the body of a response
  cannot be decoded, \<^verbatim>\<open>getLatest\<close> returns mock data, which is delivered to the event
  callback and appended to the buffer.
\<close>

theorem undecodable_poll_body_counterexample:
  "feasible [CallStart, ConnectTimeout 0,
             PollSettled (Fetched (Response True None)) example_random ''2025-09-23T19:13:40.000Z'']
     initial
   \<and> length (detections (run [CallStart, ConnectTimeout 0] initial)) = 0
   \<and> detections (run [CallStart, ConnectTimeout 0,
             PollSettled (Fetched (Response True None)) example_random ''2025-09-23T19:13:40.000Z'']
        initial)
       = [\<lparr> timestamp = JStr ''2025-09-23T19:13:40.000Z'', count = JNum 7,
            movement = JStr ''south'', fps = JNum 25, source = JStr ''rtsp'' \<rparr>]
   \<and> calls (run [CallStart, ConnectTimeout 0,
             PollSettled (Fetched (Response True None)) example_random ''2025-09-23T19:13:40.000Z'']
        initial)
       = [OnStatusChange connected,
          OnMessage \<lparr> timestamp = JStr ''2025-09-23T19:13:40.000Z'', count = JNum 7,
            movement = JStr ''south'', fps = JNum 25, source = JStr ''rtsp'' \<rparr>]"
  by (simp add: step_def initial_def handler_defs getLatest_def getLatest_try_def
      generateMockData_def example_random_def toFixed1_def index_js_def movements_def sources_def
      handleNewDetection_def slice_neg_def MAX_DATA_POINTS_def getConnectionType_def Let_def)

text \<open>
  Claim C6, amended. A streamed message whose payload cannot be parsed, or parses to
  \<^verbatim>\<open>null\<close>, changes nothing but the console, where it adds one entry: no callback is
  called, the buffer, the last update, the attempt counter and the connection type stay
  as they are.
\<close>

theorem unparsable_message_dropped:
  "step (EsMessage k None now) c = c\<lparr> console := console (step (EsMessage k None now) c) \<rparr>
   \<and> step (EsMessage k (Some JNull) now) c
       = c\<lparr> console := console (step (EsMessage k (Some JNull) now) c) \<rparr>
   \<and> (enabled (EsMessage k None now) c \<longrightarrow>
        console (step (EsMessage k None now) c) = console c @ [''Failed to parse SSE message:''])
   \<and> (enabled (EsMessage k (Some JNull) now) c \<longrightarrow>
        console (step (EsMessage k (Some JNull) now) c) = console c @ [''Failed to parse SSE message:''])
   \<and> calls (step (EsMessage k None now) c) = calls c
   \<and> length (detections (step (EsMessage k None now) c)) = length (detections c)
   \<and> lastUpdate (status (step (EsMessage k None now) c)) = lastUpdate (status c)
   \<and> reconnectAttempts (step (EsMessage k None now) c) = reconnectAttempts c
   \<and> getConnectionType (step (EsMessage k None now) c) = getConnectionType c"
  by (simp add: step_def onmessage_def log_def transform_def getConnectionType_def)

text \<open>An open stream receives a message that is not JSON.\<close>

theorem unparsable_message_dropped_witness:
  "enabled (EsMessage 0 None ''2025-09-23T19:13:40.000Z'') streaming_client
   \<and> enabled (EsMessage 0 (Some JNull) ''2025-09-23T19:13:40.000Z'') streaming_client
   \<and> console (step (EsMessage 0 None ''2025-09-23T19:13:40.000Z'') streaming_client)
       = [''Failed to parse SSE message:'']
   \<and> calls (step (EsMessage 0 None ''2025-09-23T19:13:40.000Z'') streaming_client)
       = [OnStatusChange connected]
   \<and> detections (step (EsMessage 0 None ''2025-09-23T19:13:40.000Z'') streaming_client) = []"
proof -
  have s: "enabled (EsMessage 0 p ''2025-09-23T19:13:40.000Z'') streaming_client"
    "console streaming_client = []" "calls streaming_client = [OnStatusChange connected]"
    "detections streaming_client = []" for p
    by (simp_all add: streaming_client_def step_def initial_def handler_defs
        getConnectionType_def Let_def)
  note inst = unparsable_message_dropped
    [where k = 0 and now = "''2025-09-23T19:13:40.000Z''" and c = streaming_client]
  from inst s(1) s(2) have a: "console (step (EsMessage 0 None ''2025-09-23T19:13:40.000Z'') streaming_client)
       = [''Failed to parse SSE message:'']"
    by simp
  from inst s(3) have b: "calls (step (EsMessage 0 None ''2025-09-23T19:13:40.000Z'') streaming_client)
       = [OnStatusChange connected]"
    by simp
  from inst s(4) have c: "detections (step (EsMessage 0 None ''2025-09-23T19:13:40.000Z'') streaming_client) = []"
    by simp
  from s(1) a b c show ?thesis
    by (intro conjI)
qed

subsection \<open>Polling\<close>

lemma pollSettled_frame:
  "intervals (pollSettled outcome r now c) = intervals c
   \<and> pollingInterval (pollSettled outcome r now c) = pollingInterval c
   \<and> connections (pollSettled outcome r now c) = connections c
   \<and> eventSource (pollSettled outcome r now c) = eventSource c"
  by (simp add: pollSettled_def onMessage_def onStatusChange_def log_def getLatest_def Let_def
      split: PollOutcome.split sum.split)

lemma pollSettled_calls_fetched:
  "calls (pollSettled (Fetched res) r now c) =
     calls c @ [OnMessage (case getLatest_try now res of Inr d \<Rightarrow> d | Inl e \<Rightarrow> generateMockData now r)]"
  by (simp add: pollSettled_def onMessage_def log_def getLatest_def Let_def split: sum.split)

text \<open>
  Claim C5, as stated, fails: a fetch that fails while the client polls is not reported.
  \<^verbatim>\<open>getLatest\<close> catches the failure and returns mock data, so the event callback is
  called and the status callback is not.
\<close>

theorem fetch_failure_unreported_counterexample:
  "feasible [CallStart, ConnectTimeout 0,
             PollSettled (Fetched NetworkFailure) example_random ''2025-09-23T19:13:40.000Z'']
     initial
   \<and> pollingArmed (run [CallStart, ConnectTimeout 0] initial)
   \<and> calls (run [CallStart, ConnectTimeout 0] initial) = [OnStatusChange connected]
   \<and> calls (run [CallStart, ConnectTimeout 0,
             PollSettled (Fetched NetworkFailure) example_random ''2025-09-23T19:13:40.000Z'']
        initial)
       = [OnStatusChange connected,
          OnMessage \<lparr> timestamp = JStr ''2025-09-23T19:13:40.000Z'', count = JNum 7,
            movement = JStr ''south'', fps = JNum 25, source = JStr ''rtsp'' \<rparr>]"
  by (simp add: step_def initial_def handler_defs getLatest_def getLatest_try_def pollingArmed_def
      generateMockData_def example_random_def toFixed1_def index_js_def movements_def sources_def
      handleNewDetection_def slice_neg_def MAX_DATA_POINTS_def getConnectionType_def Let_def)

text \<open>
  Claim C5, amended. When a poll settles with any result of the fetch, the event
  callback is called once and the status callback is not; after a failed fetch the event
  is the mock event. Only a failure of the dynamic import is reported as \<open>error\<close>.
  Whatever the outcome, the intervals are untouched; \<^verbatim>\<open>startPolling\<close> arms one of
  2000 ms, and an armed interval stays armed through every run without \<^verbatim>\<open>stop\<close>.
\<close>

theorem polling_masks_fetch_failure:
  "(0 < polls c \<longrightarrow>
      (\<exists>d. calls (step (PollSettled (Fetched res) r now) c) = calls c @ [OnMessage d])
      \<and> (getLatest_try now res = Inl e \<longrightarrow>
            calls (step (PollSettled (Fetched res) r now) c)
              = calls c @ [OnMessage (generateMockData now r)])
      \<and> calls (step (PollSettled ImportFailed r now) c) = calls c @ [OnStatusChange error])
   \<and> intervals (step (PollSettled outcome r now) c) = intervals c
   \<and> pollingInterval (step (PollSettled outcome r now) c) = pollingInterval c
   \<and> intervals (startPolling c) = intervals c @ [\<lparr> periodMs = 2000, active = True \<rparr>]
   \<and> pollingInterval (startPolling c) = Some (length (intervals c))
   \<and> (pollingArmed c' \<and> CallStop \<notin> set evs \<longrightarrow> pollingArmed (run evs c'))"
proof -
  have a: "calls (step (PollSettled (Fetched res) r now) c) =
             calls c @ [OnMessage (case getLatest_try now res of Inr d \<Rightarrow> d
                                   | Inl e \<Rightarrow> generateMockData now r)]"
    if "0 < polls c"
    using that by (simp add: step_def pollSettled_calls_fetched)
  have b: "calls (step (PollSettled ImportFailed r now) c) = calls c @ [OnStatusChange error]"
    if "0 < polls c"
    using that by (simp add: step_def pollSettled_def onStatusChange_def log_def)
  have c: "intervals (step (PollSettled outcome r now) c) = intervals c"
    "pollingInterval (step (PollSettled outcome r now) c) = pollingInterval c"
    by (simp_all add: step_def pollSettled_frame)
  have d: "intervals (startPolling c) = intervals c @ [\<lparr> periodMs = 2000, active = True \<rparr>]"
    "pollingInterval (startPolling c) = Some (length (intervals c))"
    by (simp_all add: startPolling_def onStatusChange_def pollData_def Let_def)
  from a b c d pollingArmed_run [of evs c'] show ?thesis
    by (auto split: sum.splits)
qed

text \<open>The first poll of a client that polls settles with a network failure.\<close>

theorem polling_masks_fetch_failure_witness:
  "0 < polls polling_client
   \<and> getLatest_try ''2025-09-23T19:13:40.000Z'' NetworkFailure = Inl FetchError
   \<and> pollingArmed polling_client
   \<and> CallStop \<notin> set [PollSettled (Fetched NetworkFailure) example_random ''2025-09-23T19:13:40.000Z'',
                       IntervalTick 0]
   \<and> calls (step (PollSettled (Fetched NetworkFailure) example_random ''2025-09-23T19:13:40.000Z'')
              polling_client)
       = [OnStatusChange connected,
          OnMessage (generateMockData ''2025-09-23T19:13:40.000Z'' example_random)]
   \<and> pollingArmed
        (run [PollSettled (Fetched NetworkFailure) example_random ''2025-09-23T19:13:40.000Z'',
              IntervalTick 0] polling_client)"
proof -
  have p: "0 < polls polling_client" "calls polling_client = [OnStatusChange connected]"
    "pollingArmed polling_client"
    by (simp_all add: polling_client_def step_def initial_def handler_defs pollingArmed_def
        getConnectionType_def Let_def)
  have f: "getLatest_try ''2025-09-23T19:13:40.000Z'' NetworkFailure = Inl FetchError"
    by (simp add: getLatest_try_def)
  have n: "CallStop \<notin> set [PollSettled (Fetched NetworkFailure) example_random
                               ''2025-09-23T19:13:40.000Z'', IntervalTick 0]"
    by simp
  note inst = polling_masks_fetch_failure
    [where c = polling_client and res = NetworkFailure and r = example_random
       and now = "''2025-09-23T19:13:40.000Z''" and e = FetchError and c' = polling_client
       and evs = "[PollSettled (Fetched NetworkFailure) example_random
                     ''2025-09-23T19:13:40.000Z'', IntervalTick 0]"]
  from inst p(1) f p(2) have a:
    "calls (step (PollSettled (Fetched NetworkFailure) example_random ''2025-09-23T19:13:40.000Z'')
              polling_client)
       = [OnStatusChange connected,
          OnMessage (generateMockData ''2025-09-23T19:13:40.000Z'' example_random)]"
    by simp
  from inst p(3) n have b: "pollingArmed
        (run [PollSettled (Fetched NetworkFailure) example_random ''2025-09-23T19:13:40.000Z'',
              IntervalTick 0] polling_client)"
    by blast
  from p(1) f p(3) n a b show ?thesis
    by (intro conjI)
qed




end
